theory Spec2Isabelle
  imports Complex_Main "HOL-Library.Sublist"
begin

section \<open>Untyped documents\<close>

text \<open>
  \<^verbatim>\<open>getValues\<close> decodes a values file into \<^verbatim>\<open>map[string]interface{}\<close>.  The decoder
  (sigs.k8s.io/yaml, which goes through encoding/json) stores in an \<^verbatim>\<open>interface{}\<close> one of:
  the nil interface, a \<^verbatim>\<open>bool\<close>, a \<^verbatim>\<open>float64\<close>, a \<^verbatim>\<open>string\<close>, a non-nil
  \<^verbatim>\<open>[]interface{}\<close> or a \<^verbatim>\<open>map[string]interface{}\<close>.  A Go map is a finite partial
  function on its keys.  The payload of a number is never inspected by the code below; a
  finite \<^verbatim>\<open>float64\<close> is a real number.
\<close>

datatype Value =
    VNil
  | VBool bool
  | VFloat64 real
  | VStr string
  | VList "Value list"
  | VMap "string \<Rightarrow> Value option"

text \<open>The dynamic type of a value, as \<^verbatim>\<open>%T\<close> prints it.\<close>

datatype go_type = T_nil | T_bool | T_float64 | T_string | T_slice | T_map

fun typeOf :: "Value \<Rightarrow> go_type" where
  "typeOf VNil = T_nil"
| "typeOf (VBool b) = T_bool"
| "typeOf (VFloat64 x) = T_float64"
| "typeOf (VStr s) = T_string"
| "typeOf (VList l) = T_slice"
| "typeOf (VMap m) = T_map"

section \<open>Errors and panics\<close>

text \<open>
  One constructor for each \<^verbatim>\<open>fmt.Errorf\<close> call of the functions modelled below,
  carrying the arguments of the format string; \<open>External\<close> stands for the errors of the
  operating system, of an invoked process and of the YAML decoder, which the code only
  passes on or wraps.
\<close>

datatype error =
    External string
  | CheckFailed string error
  | ListRequiresIntegerPath string "string list"
  | ExpectedMapOrString go_type string "string list"
  | FailedToReadDockerDir error
  | ExpectedDockerImage string "string set"
  | HelmShow error
  | ChartError string error
  | InvalidPath error
  | ArchiveTagIncorrect Value string
  | HubIncorrect Value string
  | DashboardsOutOfSync "string set" "string set"

text \<open>A run-time panic of Go: indexing a slice of length \<open>n\<close> at \<open>i\<close> out of range.\<close>

datatype panic = IndexOutOfRange int nat

datatype 'a exec = Returns 'a | Panics panic

section \<open>Library functions used by the checks\<close>

text \<open>
  \<^verbatim>\<open>strconv.Atoi\<close> (Go standard library, 64-bit \<^verbatim>\<open>int\<close>): an optional sign \<^verbatim>\<open>+\<close> or
  \<^verbatim>\<open>-\<close>, then one or more decimal digits, the value within the range of \<^verbatim>\<open>int\<close>;
  anything else is an error (\<open>None\<close>).
\<close>

definition isDigit :: "char \<Rightarrow> bool" where
  "isDigit c = (c \<in> set ''0123456789'')"

definition digitVal :: "char \<Rightarrow> int" where
  "digitVal c = int (of_char c) - 48"

definition Atoi :: "string \<Rightarrow> int option" where
  "Atoi s =
     (let neg = (s \<noteq> [] \<and> hd s = CHR ''-'');
          ds = (if s \<noteq> [] \<and> (hd s = CHR ''-'' \<or> hd s = CHR ''+'') then tl s else s)
      in if ds = [] \<or> \<not> list_all isDigit ds then None
         else (let n = foldl (\<lambda>n ch. n * 10 + digitVal ch) 0 ds;
                   v = (if neg then - n else n)
               in if - (2 ^ 63) \<le> v \<and> v < 2 ^ 63 then Some v else None))"

section \<open>GenericMap.Path\<close>

record GenericMap =
  data :: "string \<Rightarrow> Value option"

text \<open>\<^verbatim>\<open>current[p]\<close>: indexing a Go map at an absent key gives the nil interface.\<close>

definition index_map :: "(string \<Rightarrow> Value option) \<Rightarrow> string \<Rightarrow> Value" where
  "index_map current p = (case current p of None \<Rightarrow> VNil | Some v \<Rightarrow> v)"

text \<open>
  Lines 182-191, the value the type switch looks at: \<^verbatim>\<open>current[p]\<close>, unless
  \<^verbatim>\<open>tmpList\<close> is set; then \<^verbatim>\<open>p\<close> goes through \<^verbatim>\<open>strconv.Atoi\<close> (an error returns
  from \<^verbatim>\<open>Path\<close>) and the value is \<^verbatim>\<open>tmpList[i]\<close>, which panics out of range.
  \<open>Inl\<close> leaves \<^verbatim>\<open>Path\<close> at once, \<open>Inr\<close> goes on to the type switch.
\<close>

definition segment_value ::
  "string list \<Rightarrow> (string \<Rightarrow> Value option) \<Rightarrow> Value list option \<Rightarrow> string
     \<Rightarrow> (Value \<times> error option) exec + Value" where
  "segment_value path current tmpList p =
     (case tmpList of
        None \<Rightarrow> Inr (index_map current p)
      | Some l \<Rightarrow>
          (case Atoi p of
             None \<Rightarrow> Inl (Returns (VNil, Some (ListRequiresIntegerPath p path)))
           | Some i \<Rightarrow>
               if 0 \<le> i \<and> i < int (length l) then Inr (l ! nat i)
               else Inl (Panics (IndexOutOfRange i (length l)))))"

text \<open>
  The loop of \<^verbatim>\<open>Path\<close> over the remaining segments, with the loop variables
  \<^verbatim>\<open>current\<close> and \<^verbatim>\<open>tmpList\<close> (\<open>None\<close> is the nil slice) and the whole \<^verbatim>\<open>path\<close> for
  the messages.
\<close>

fun Path_loop ::
  "string list \<Rightarrow> (string \<Rightarrow> Value option) \<Rightarrow> Value list option \<Rightarrow> string list
     \<Rightarrow> (Value \<times> error option) exec" where
  "Path_loop path current tmpList [] = Returns (VNil, None)"
| "Path_loop path current tmpList (p # rest) =
     (case segment_value path current tmpList p of
        Inl r \<Rightarrow> r
      | Inr val \<Rightarrow>
          (case val of
             VStr v \<Rightarrow> Returns (VStr v, None)
           | VMap v \<Rightarrow> Path_loop path v None rest
           | VList v \<Rightarrow> Path_loop path current (Some v) rest
           | _ \<Rightarrow> Returns (VNil, Some (ExpectedMapOrString (typeOf val) p path))))"

definition Path :: "GenericMap \<Rightarrow> string list \<Rightarrow> (Value \<times> error option) exec" where
  "Path g path = Path_loop path (data g) None path"


text \<open>
  \<^verbatim>\<open>strings.Cut(s, sep)\<close> (Go standard library): the text before and after the first
  occurrence of \<open>sep\<close>, and whether it occurs; without one, \<open>s\<close>, the empty string and
  false.
\<close>

fun Cut :: "string \<Rightarrow> string \<Rightarrow> string \<times> string \<times> bool" where
  "Cut [] sep = ([], [], sep = [])"
| "Cut (c # cs) sep =
     (if prefix sep (c # cs) then ([], drop (length sep) (c # cs), True)
      else (case Cut cs sep of
              (before, after, found) \<Rightarrow>
                if found then (c # before, after, True) else (c # cs, [], False)))"

text \<open>
  \<^verbatim>\<open>strings.Split(s, sep)\<close> (Go standard library) for a non-empty separator: the pieces
  of \<open>s\<close> between the occurrences of \<open>sep\<close>, found from the left and not overlapping;
  one piece more than there are occurrences, so the empty string gives one empty piece.
  \<open>acc\<close> holds the current piece, reversed.  (With an empty separator Go splits after every
  character; validate.go only splits at \<^verbatim>\<open>"."\<close>.)
\<close>

function split_from :: "string \<Rightarrow> string \<Rightarrow> string \<Rightarrow> string list" where
  "split_from sep acc [] = [rev acc]"
| "split_from sep acc (c # cs) =
     (if sep \<noteq> [] \<and> prefix sep (c # cs)
      then rev acc # split_from sep [] (drop (length sep) (c # cs))
      else split_from sep (c # acc) cs)"
  by pat_completeness auto
termination
  by (relation "measure (\<lambda>(sep, acc, s). length s)") auto

definition Split :: "string \<Rightarrow> string \<Rightarrow> string list" where
  "Split s sep = (if sep = [] then map (\<lambda>c. [c]) s else split_from sep [] s)"

text \<open>
  \<^verbatim>\<open>strings.HasSuffix\<close> and \<^verbatim>\<open>strings.TrimSuffix\<close> (Go standard library):
  \<^verbatim>\<open>len(s) >= len(suffix) && s[len(s)-len(suffix):] == suffix\<close>, and \<open>s\<close> without that
  suffix when it has it.
\<close>

definition HasSuffix :: "string \<Rightarrow> string \<Rightarrow> bool" where
  "HasSuffix s suf = (length suf \<le> length s \<and> drop (length s - length suf) s = suf)"

definition TrimSuffix :: "string \<Rightarrow> string \<Rightarrow> string" where
  "TrimSuffix s suf = (if HasSuffix s suf then take (length s - length suf) s else s)"

section \<open>The release and its environment\<close>

text \<open>
  Modelled from the spec: the type \<^verbatim>\<open>model.Manifest\<close> is declared in pkg/model, whose
  source is not among the files of validate.go.  The spec gives a manifest a version
  string, a container registry (hub) string, a list of \<^verbatim>\<open>os/arch\<close> target strings and a
  mapping of dashboard name to metadata; these are the fields the checks below read,
  under the names validate.go reads them by.  \<^verbatim>\<open>GrafanaDashboards\<close> is a Go map keyed
  by dashboard name, of which only the keys are read.
\<close>

record Manifest =
  Version :: string
  Docker :: string
  Architectures :: "string list"
  GrafanaDashboards :: "string \<Rightarrow> int option"

record ReleaseInfo =
  tmpDir :: string
  manifest :: Manifest
  archive :: string
  release :: string

text \<open>
  What a check observes outside the process and the library functions whose code is not
  at hand, as the state a check runs in:
  \<^item> \<open>Join\<close>: \<^verbatim>\<open>filepath.Join\<close> and \<^verbatim>\<open>path.Join\<close> (the same on Linux);
  \<^item> \<open>ReadDir\<close>: \<^verbatim>\<open>os.ReadDir\<close>, the names of the entries or the error;
  \<^item> \<open>ReadFile\<close>: \<^verbatim>\<open>os.ReadFile\<close>;
  \<^item> \<open>Walk\<close>: the paths \<^verbatim>\<open>filepath.Walk\<close> hands to the callback of
    \<^verbatim>\<open>CheckRelease\<close> before it stops (at the end of the tree or at the first error);
  \<^item> \<open>Unmarshal\<close>: \<^verbatim>\<open>yaml.Unmarshal\<close> into a \<^verbatim>\<open>map[string]interface{}\<close>;
  \<^item> \<open>IsValidSemver\<close>: \<^verbatim>\<open>util.IsValidSemver\<close>;
  \<^item> \<open>FormatReleaseInfo\<close>: \<^verbatim>\<open>fmt.Sprintf("%+v", r)\<close>;
  \<^item> \<open>command\<close>: what running a command line gives, an error or the captured standard
    output; \<open>executed\<close>: the command lines run so far, oldest first.
\<close>

record env =
  Join :: "string list \<Rightarrow> string"
  ReadDir :: "string \<Rightarrow> error + string list"
  ReadFile :: "string \<Rightarrow> error + string"
  Walk :: "string \<Rightarrow> string list"
  Unmarshal :: "string \<Rightarrow> error + (string \<Rightarrow> Value option)"
  IsValidSemver :: "string \<Rightarrow> bool"
  FormatReleaseInfo :: "ReleaseInfo \<Rightarrow> string"
  command :: "string list \<Rightarrow> error + string"
  executed :: "string list list"

text \<open>
  \<^verbatim>\<open>type ValidationFunction func(ReleaseInfo) error\<close>: a check runs in a state, may
  change it (it runs processes), and returns nil (\<open>None\<close>) or an error, unless it panics.
\<close>

type_synonym ValidationFunction = "ReleaseInfo \<Rightarrow> env \<Rightarrow> (error option \<times> env) exec"

text \<open>\<^verbatim>\<open>util.VerboseCommand(argv...)\<close> with \<^verbatim>\<open>Stdout\<close> set to a buffer, then \<^verbatim>\<open>Run()\<close>.\<close>

definition Run :: "string list \<Rightarrow> env \<Rightarrow> (error + string) \<times> env" where
  "Run argv w = (command w argv, w\<lparr>executed := executed w @ [argv]\<rparr>)"

section \<open>Hub and tag\<close>

definition getValues :: "env \<Rightarrow> string \<Rightarrow> error + (string \<Rightarrow> Value option)" where
  "getValues w values = Unmarshal w values"

text \<open>
  \<^verbatim>\<open>tag != r.manifest.Version\<close> compares an \<^verbatim>\<open>interface{}\<close> with a string: they are
  equal when the interface holds a string with the same text.
\<close>

definition validateHubTag :: "ReleaseInfo \<Rightarrow> env \<Rightarrow> string \<Rightarrow> string \<Rightarrow> error option exec" where
  "validateHubTag r w valuesBytes paths =
     (case getValues w valuesBytes of
        Inl err \<Rightarrow> Returns (Some err)
      | Inr values \<Rightarrow>
          (let tagPath = (if paths = [] then [''tag''] else Split paths ''.'' @ [''tag''])
           in case Path \<lparr>data = values\<rparr> tagPath of
                Panics p \<Rightarrow> Panics p
              | Returns (tag, Some err) \<Rightarrow> Returns (Some (InvalidPath err))
              | Returns (tag, None) \<Rightarrow>
                  if tag \<noteq> VStr (Version (manifest r))
                  then Returns (Some (ArchiveTagIncorrect tag (Version (manifest r))))
                  else (let hubPath = (if paths = [] then [''hub''] else Split paths ''.'' @ [''hub''])
                        in case Path \<lparr>data = values\<rparr> hubPath of
                             Panics p \<Rightarrow> Panics p
                           | Returns (hub, Some err) \<Rightarrow> Returns (Some (InvalidPath err))
                           | Returns (hub, None) \<Rightarrow>
                               if hub \<noteq> VStr (Docker (manifest r))
                               then Returns (Some (HubIncorrect hub (Docker (manifest r))))
                               else Returns None)))"

definition validateHubTagFromFile :: "ReleaseInfo \<Rightarrow> env \<Rightarrow> string \<Rightarrow> string \<Rightarrow> error option exec" where
  "validateHubTagFromFile r w file paths =
     (case ReadFile w (Join w [archive r, file]) of
        Inl err \<Rightarrow> Returns (Some err)
      | Inr values \<Rightarrow> validateHubTag r w values paths)"

text \<open>
  \<^verbatim>\<open>for _, file := range files { err := f(file); if err != nil { return err } }\<close>
\<close>

fun for_files :: "(string \<Rightarrow> error option exec) \<Rightarrow> string list \<Rightarrow> error option exec" where
  "for_files f [] = Returns None"
| "for_files f (file # files) =
     (case f file of
        Panics p \<Rightarrow> Panics p
      | Returns (Some err) \<Rightarrow> Returns (Some err)
      | Returns None \<Rightarrow> for_files f files)"

definition manifestValues :: "string list" where
  "manifestValues =
     [''manifests/charts/gateways/istio-egress/values.yaml'',
      ''manifests/charts/gateways/istio-ingress/values.yaml'',
      ''manifests/charts/istio-cni/values.yaml'',
      ''manifests/charts/istio-control/istio-discovery/values.yaml'']"

definition topLevel :: "string list" where
  "topLevel = [''manifests/charts/ztunnel/values.yaml'']"

definition TestHelmVersionsIstio :: ValidationFunction where
  "TestHelmVersionsIstio r w =
     (case for_files (\<lambda>file. validateHubTagFromFile r w file ''_internal_defaults_do_not_set.global'')
             manifestValues of
        Panics p \<Rightarrow> Panics p
      | Returns (Some err) \<Rightarrow> Returns (Some err, w)
      | Returns None \<Rightarrow>
          (case for_files (\<lambda>file. validateHubTagFromFile r w file ''_internal_defaults_do_not_set'')
                  topLevel of
             Panics p \<Rightarrow> Panics p
           | Returns res \<Rightarrow> Returns (res, w)))"

text \<open>
  The table \<^verbatim>\<open>expected\<close> of \<^verbatim>\<open>TestHelmChartVersions\<close>, chart name to values sub-path.
  Go ranges over a map in an order of its own choosing: the loop takes the entries in the
  order \<open>charts\<close>, some enumeration of this table.
\<close>

definition expected_charts :: "(string \<times> string) list" where
  "expected_charts =
     [(''cni'', ''_internal_defaults_do_not_set.global''),
      (''ztunnel'', ''_internal_defaults_do_not_set''),
      (''istiod'', ''_internal_defaults_do_not_set.global''),
      (''base'', ''none''),
      (''gateway'', ''none'')]"

fun helm_charts_loop :: "ReleaseInfo \<Rightarrow> (string \<times> string) list \<Rightarrow> env \<Rightarrow> (error option \<times> env) exec" where
  "helm_charts_loop r [] w = Returns (None, w)"
| "helm_charts_loop r ((chart, path) # rest) w =
     (case Run [''helm'', ''show'', ''values'',
                Join w [release r, ''helm'', chart @ ''-'' @ Version (manifest r) @ ''.tgz'']] w of
        (Inl err, w') \<Rightarrow> Returns (Some (HelmShow err), w')
      | (Inr buf, w') \<Rightarrow>
          if path = ''none'' then helm_charts_loop r rest w'
          else (case validateHubTag r w' buf path of
                  Panics p \<Rightarrow> Panics p
                | Returns (Some err) \<Rightarrow> Returns (Some (ChartError chart err), w')
                | Returns None \<Rightarrow> helm_charts_loop r rest w'))"

definition TestHelmChartVersions :: "(string \<times> string) list \<Rightarrow> ValidationFunction" where
  "TestHelmChartVersions charts r w =
     (if \<not> IsValidSemver w (Version (manifest r)) then Returns (None, w)
      else helm_charts_loop r charts w)"

section \<open>Images and dashboards\<close>

definition expected_images :: "string list" where
  "expected_images =
     [''pilot-distroless'',
      ''pilot-debug'',
      ''install-cni-debug'',
      ''ztunnel-debug'',
      ''ztunnel-distroless'',
      ''proxyv2-debug'',
      ''proxyv2-distroless'']"

text \<open>The inner loop of \<^verbatim>\<open>TestDocker\<close>, over the expected images of one architecture.\<close>

fun docker_images_loop :: "string set \<Rightarrow> string \<Rightarrow> string list \<Rightarrow> error option" where
  "docker_images_loop found suffix' [] = None"
| "docker_images_loop found suffix' (i # rest) =
     (let image = i @ suffix' @ ''.tar.gz''
      in if image \<notin> found then Some (ExpectedDockerImage image found)
         else docker_images_loop found suffix' rest)"

text \<open>The outer loop of \<^verbatim>\<open>TestDocker\<close>, over \<^verbatim>\<open>r.manifest.Architectures\<close>.\<close>

fun docker_archs_loop :: "string set \<Rightarrow> string list \<Rightarrow> error option" where
  "docker_archs_loop found [] = None"
| "docker_archs_loop found (plat # rest) =
     (case Cut plat ''/'' of
        (before, arch, ok) \<Rightarrow>
          (let suffix' = (if arch \<noteq> ''amd64'' then ''-'' @ arch else [])
           in case docker_images_loop found suffix' expected_images of
                Some err \<Rightarrow> Some err
              | None \<Rightarrow> docker_archs_loop found rest))"

definition TestDocker :: ValidationFunction where
  "TestDocker r w =
     (case ReadDir w (Join w [release r, ''docker'']) of
        Inl err \<Rightarrow> Returns (Some (FailedToReadDockerDir err), w)
      | Inr d \<Rightarrow> Returns (docker_archs_loop (set d) (Architectures (manifest r)), w))"

text \<open>
  \<^verbatim>\<open>created\<close> and \<^verbatim>\<open>manifest\<close> are both non-nil \<^verbatim>\<open>map[string]struct{}\<close>, that is
  sets of strings; \<^verbatim>\<open>reflect.DeepEqual\<close> holds of two such maps when they have the same
  keys.
\<close>

definition TestGrafana :: ValidationFunction where
  "TestGrafana r w =
     (case ReadDir w (Join w [release r, ''grafana'']) of
        Inl err \<Rightarrow> Returns (Some err, w)
      | Inr dir \<Rightarrow>
          (let created = set (map (\<lambda>db. TrimSuffix db ''.json'') dir);
               manifest' = dom (GrafanaDashboards (manifest r))
           in if created \<noteq> manifest' then Returns (Some (DashboardsOutOfSync created manifest'), w)
              else Returns (None, w)))"

section \<open>The runner\<close>

text \<open>
  Lines 89-98 of \<^verbatim>\<open>CheckRelease\<close>: the loop over the registry.  Go ranges over the map
  \<^verbatim>\<open>checks\<close> in an order of its own choosing; \<open>checks\<close> lists the entries in the order
  taken.  Nothing recovers from a panic of a check.
\<close>

fun CheckRelease_loop ::
  "ReleaseInfo \<Rightarrow> (string \<times> ValidationFunction) list \<Rightarrow> env \<Rightarrow> error list \<Rightarrow> string list
     \<Rightarrow> (error list \<times> string list \<times> env) exec" where
  "CheckRelease_loop r [] w errors success = Returns (errors, success, w)"
| "CheckRelease_loop r ((name, check) # rest) w errors success =
     (case check r w of
        Panics p \<Rightarrow> Panics p
      | Returns (Some err, w') \<Rightarrow>
          CheckRelease_loop r rest w' (errors @ [CheckFailed name err]) success
      | Returns (None, w') \<Rightarrow>
          CheckRelease_loop r rest w' errors (success @ [name]))"

definition newline :: string where
  "newline = [CHR 0x0A]"

text \<open>Lines 99-120: the report, written only when a check failed.\<close>

definition CheckRelease_report :: "ReleaseInfo \<Rightarrow> env \<Rightarrow> error list \<Rightarrow> string" where
  "CheckRelease_report r w errors =
     (if length errors > 0
      then ''Checks failed. Release info: '' @ FormatReleaseInfo w r
           @ ''Files in release: '' @ newline
           @ concat (map (\<lambda>path. ''- '' @ path @ newline) (Walk w (release r)))
           @ newline @ ''Files in archive: '' @ newline
           @ concat (map (\<lambda>path. ''- '' @ path @ newline) (Walk w (archive r)))
      else [])"

text \<open>
  Lines 89-121 of \<^verbatim>\<open>CheckRelease\<close>, from the registry \<open>checks\<close> on: the succeeded
  names, the report and the errors.
\<close>

definition CheckRelease_run ::
  "ReleaseInfo \<Rightarrow> (string \<times> ValidationFunction) list \<Rightarrow> env \<Rightarrow> (string list \<times> string \<times> error list) exec" where
  "CheckRelease_run r checks w =
     (case CheckRelease_loop r checks w [] [] of
        Panics p \<Rightarrow> Panics p
      | Returns (errors, success, w') \<Rightarrow> Returns (success, CheckRelease_report r w' errors, errors))"

section \<open>Example releases\<close>

text \<open>Joining clean, non-empty path elements with a slash, as \<^verbatim>\<open>filepath.Join\<close> does.\<close>

fun join_slash :: "string list \<Rightarrow> string" where
  "join_slash [] = []"
| "join_slash [x] = x"
| "join_slash (x # y # ys) = x @ ''/'' @ join_slash (y # ys)"

text \<open>
  An environment with no file, no directory and no executable.  Of the versions used
  below, \<^verbatim>\<open>1.2.3\<close> and \<^verbatim>\<open>dev-build\<close>, the first is a semantic version.
\<close>

definition bare_env :: env where
  "bare_env =
     \<lparr>Join = join_slash,
      ReadDir = (\<lambda>p. Inl (External ''no such file or directory'')),
      ReadFile = (\<lambda>p. Inl (External ''no such file or directory'')),
      Walk = (\<lambda>p. []),
      Unmarshal = (\<lambda>b. Inl (External ''error converting YAML to JSON'')),
      IsValidSemver = (\<lambda>v. v = ''1.2.3''),
      FormatReleaseInfo = (\<lambda>r. ''{}''),
      command = (\<lambda>argv. Inl (External ''executable file not found'')),
      executed = []\<rparr>"


definition release_123 :: ReleaseInfo where
  "release_123 =
     \<lparr>tmpDir = ''/tmp/release-test1'',
      manifest = \<lparr>Version = ''1.2.3'', Docker = ''docker.io/istio'',
                  Architectures = [''linux/amd64'', ''linux/arm64''],
                  GrafanaDashboards = [''a'' \<mapsto> 1, ''b'' \<mapsto> 2]\<rparr>,
      archive = ''/tmp/release-test1/istio-1.2.3'',
      release = ''/out''\<rparr>"

text \<open>The release above with other dashboards in its manifest.\<close>

definition release_dashboards :: "(string \<Rightarrow> int option) \<Rightarrow> ReleaseInfo" where
  "release_dashboards ds =
     release_123\<lparr>manifest := (manifest release_123)\<lparr>GrafanaDashboards := ds\<rparr>\<rparr>"

text \<open>An environment whose only directory is \<open>path\<close>, holding \<open>names\<close>.\<close>

definition env_with_dir :: "string \<Rightarrow> string list \<Rightarrow> env" where
  "env_with_dir path names =
     bare_env\<lparr>ReadDir := (\<lambda>p. if p = path then Inr names
                              else Inl (External ''no such file or directory''))\<rparr>"

text \<open>The image tarballs of \<^verbatim>\<open>linux/amd64\<close>, and those of \<^verbatim>\<open>linux/arm64\<close>.\<close>

definition tarballs_amd64 :: "string list" where
  "tarballs_amd64 =
     [''install-cni-debug.tar.gz'', ''pilot-debug.tar.gz'', ''pilot-distroless.tar.gz'',
      ''proxyv2-debug.tar.gz'', ''proxyv2-distroless.tar.gz'', ''ztunnel-debug.tar.gz'',
      ''ztunnel-distroless.tar.gz'']"

definition tarballs_arm64 :: "string list" where
  "tarballs_arm64 =
     [''install-cni-debug-arm64.tar.gz'', ''pilot-debug-arm64.tar.gz'',
      ''pilot-distroless-arm64.tar.gz'', ''proxyv2-debug-arm64.tar.gz'',
      ''proxyv2-distroless-arm64.tar.gz'', ''ztunnel-debug-arm64.tar.gz'',
      ''ztunnel-distroless-arm64.tar.gz'']"

text \<open>
  A development build: the version is no semantic version, and the first values file of
  the archive carries the tag \<^verbatim>\<open>1.2.3\<close>.
\<close>

definition release_dev :: ReleaseInfo where
  "release_dev =
     \<lparr>tmpDir = ''/tmp/release-test2'',
      manifest = \<lparr>Version = ''dev-build'', Docker = ''docker.io/istio'',
                  Architectures = [''linux/amd64''],
                  GrafanaDashboards = Map.empty\<rparr>,
      archive = ''/tmp/release-test2/istio-dev-build'',
      release = ''/out''\<rparr>"

definition dev_env :: env where
  "dev_env =
     bare_env
       \<lparr>ReadFile := (\<lambda>p. if p = ''/tmp/release-test2/istio-dev-build/manifests/charts/gateways/istio-egress/values.yaml''
                           then Inr ''_internal_defaults_do_not_set: {global: {tag: 1.2.3, hub: docker.io/istio}}''
                           else Inl (External ''no such file or directory'')),
        Unmarshal := (\<lambda>b. if b = ''_internal_defaults_do_not_set: {global: {tag: 1.2.3, hub: docker.io/istio}}''
                            then Inr [''_internal_defaults_do_not_set'' \<mapsto>
                                        VMap [''global'' \<mapsto>
                                                VMap [''tag'' \<mapsto> VStr ''1.2.3'',
                                                      ''hub'' \<mapsto> VStr ''docker.io/istio'']]]
                            else Inl (External ''error converting YAML to JSON''))\<rparr>"

text \<open>A registry of three checks, in the order they are run.\<close>

definition example_checks :: "(string \<times> ValidationFunction) list" where
  "example_checks =
     [(''TestDocker'', TestDocker),
      (''Grafana'', TestGrafana),
      (''HelmChartVersions'', TestHelmChartVersions expected_charts)]"

section \<open>What the checks are to establish\<close>


text \<open>
  The suffix of the image tarballs of a platform \<^verbatim>\<open>os/arch\<close>: none for \<^verbatim>\<open>amd64\<close>,
  \<^verbatim>\<open>-arch\<close> otherwise.
\<close>

definition image_suffix :: "string \<Rightarrow> string" where
  "image_suffix plat =
     (let arch = fst (snd (Cut plat ''/'')) in if arch = ''amd64'' then [] else ''-'' @ arch)"

text \<open>The tarballs expected for a list of platforms, in the order the check looks for them.\<close>

definition expected_tarballs :: "string list \<Rightarrow> string list" where
  "expected_tarballs archs =
     concat (map (\<lambda>plat. map (\<lambda>i. i @ image_suffix plat @ ''.tar.gz'') expected_images) archs)"

text \<open>
  The outcome of each check of a registry, run one after the other, each in the state the
  one before left: the name with nil or the error, and the last state.  A panic of a
  check ends the run.
\<close>

fun check_outcomes ::
  "ReleaseInfo \<Rightarrow> (string \<times> ValidationFunction) list \<Rightarrow> env
     \<Rightarrow> ((string \<times> error option) list \<times> env) exec" where
  "check_outcomes r [] w = Returns ([], w)"
| "check_outcomes r ((name, check) # rest) w =
     (case check r w of
        Panics p \<Rightarrow> Panics p
      | Returns (res, w') \<Rightarrow>
          (case check_outcomes r rest w' of
             Panics p \<Rightarrow> Panics p
           | Returns (outs, w'') \<Rightarrow> Returns ((name, res) # outs, w'')))"

text \<open>The names of the checks that succeeded, and the messages of those that failed.\<close>

definition succeeded :: "(string \<times> error option) list \<Rightarrow> string list" where
  "succeeded outs = map fst (filter (\<lambda>(name, res). res = None) outs)"

definition failures :: "(string \<times> error option) list \<Rightarrow> error list" where
  "failures outs =
     concat (map (\<lambda>(name, res). case res of None \<Rightarrow> [] | Some err \<Rightarrow> [CheckFailed name err]) outs)"

section \<open>Properties of GenericMap.Path\<close>

lemmas Path_eval = Path_def segment_value_def index_map_def Atoi_def isDigit_def digitVal_def

text \<open>While a list is pending, the mapping \<^verbatim>\<open>current\<close> is not consulted.\<close>

lemma Path_loop_pending_list:
  "Path_loop path current (Some l) ps = Path_loop path current' (Some l) ps"
proof (induction ps arbitrary: l)
  case Nil
  show ?case by simp
next
  case (Cons p ps)
  show ?case
  proof (cases "Atoi p")
    case None
    then show ?thesis by (simp add: segment_value_def)
  next
    case (Some i)
    show ?thesis
    proof (cases "0 \<le> i \<and> i < int (length l)")
      case True
      with Some Cons.IH show ?thesis
        by (cases "l ! nat i") (simp_all add: segment_value_def)
    next
      case False
      with Some show ?thesis by (auto simp: segment_value_def)
    qed
  qed
qed

text \<open>A string result stays when segments are added to the path.\<close>

lemma Path_loop_string_append:
  "Path_loop path current tmpList ps = Returns (VStr s, None)
     \<Longrightarrow> Path_loop path' current tmpList (ps @ extra) = Returns (VStr s, None)"
proof (induction ps arbitrary: current tmpList)
  case Nil
  then show ?case by simp
next
  case (Cons p ps)
  show ?case
  proof (cases tmpList)
    case None
    with Cons show ?thesis
      by (cases "index_map current p") (simp_all add: segment_value_def)
  next
    case (Some l)
    note l = this
    show ?thesis
    proof (cases "Atoi p")
      case None
      with l Cons.prems show ?thesis by (simp add: segment_value_def)
    next
      case (Some i)
      show ?thesis
      proof (cases "0 \<le> i \<and> i < int (length l)")
        case True
        with Some l Cons show ?thesis
          by (cases "l ! nat i") (simp_all add: segment_value_def)
      next
        case False
        with Some l Cons.prems show ?thesis
          by (auto simp: segment_value_def)
      qed
    qed
  qed
qed

text \<open>Without an error, the value returned is nil or a string.\<close>

lemma Path_loop_no_error_result:
  "Path_loop path current tmpList ps = Returns (v, None) \<Longrightarrow> v = VNil \<or> (\<exists>s. v = VStr s)"
proof (induction ps arbitrary: current tmpList)
  case Nil
  then show ?case by simp
next
  case (Cons p ps)
  show ?case
  proof (cases "segment_value path current tmpList p")
    case (Inl r)
    with Cons.prems have "r = Returns (v, None)" by simp
    with Inl show ?thesis
      by (auto simp: segment_value_def split: option.splits if_splits)
  next
    case (Inr val)
    with Cons show ?thesis
      by (cases val) auto
  qed
qed

text \<open>The error about an integer path names a segment that \<^verbatim>\<open>Atoi\<close> refuses.\<close>

lemma Path_loop_integer_error:
  "Path_loop path current tmpList ps = Returns (v, Some (ListRequiresIntegerPath q path'))
     \<Longrightarrow> Atoi q = None"
proof (induction ps arbitrary: current tmpList)
  case Nil
  then show ?case by simp
next
  case (Cons p ps)
  show ?case
  proof (cases "segment_value path current tmpList p")
    case (Inl r)
    with Cons.prems have "r = Returns (v, Some (ListRequiresIntegerPath q path'))" by simp
    with Inl show ?thesis
      by (auto simp: segment_value_def split: option.splits if_splits)
  next
    case (Inr val)
    with Cons show ?thesis
      by (cases val) auto
  qed
qed

text \<open>
  C1, as the code has it.  A segment looked up as a key that the current mapping does not
  hold gives the nil interface, which the type switch sends to its default branch:
  \<^verbatim>\<open>Path\<close> returns the error "expected map or string, got <nil>", naming the segment
  and the whole path.  On the document \<^verbatim>\<open>{"a":{}}\<close> the path \<^verbatim>\<open>["a","b"]\<close> returns
  that error, naming \<^verbatim>\<open>"b"\<close>.
\<close>

theorem Path_absent_key_error:
  "(current p = None \<longrightarrow>
      Path_loop path current None (p # rest)
        = Returns (VNil, Some (ExpectedMapOrString T_nil p path)))
   \<and> Path \<lparr>data = [''a'' \<mapsto> VMap Map.empty]\<rparr> [''a'', ''b'']
        = Returns (VNil, Some (ExpectedMapOrString T_nil ''b'' [''a'', ''b'']))"
  by (simp add: Path_eval)

theorem Path_absent_key_error_witness:
  "(Map.empty :: string \<Rightarrow> Value option) ''b'' = None
   \<and> Path_loop [''a'', ''b''] Map.empty None [''b'']
        = Returns (VNil, Some (ExpectedMapOrString T_nil ''b'' [''a'', ''b'']))"
  using Path_absent_key_error [THEN conjunct1, rule_format,
      of Map.empty "''b''" "[''a'', ''b'']" "[]"]
  by simp

text \<open>
  C1, as the specification states it, fails: on \<^verbatim>\<open>{"a":{}}\<close> with the path
  \<^verbatim>\<open>["a","b"]\<close> the result is not the empty result without an error.
\<close>

theorem Path_absent_key_counterexample:
  "Path \<lparr>data = [''a'' \<mapsto> VMap Map.empty]\<rparr> [''a'', ''b''] \<noteq> Returns (VNil, None)"
  by (simp add: Path_eval)

text \<open>
  C2, as the code has it.  On the document \<^verbatim>\<open>{"a": 5}\<close> with the path \<^verbatim>\<open>["a","b"]\<close>,
  \<^verbatim>\<open>Path\<close> fails with the error "expected map or string, got float64": it names the
  segment \<^verbatim>\<open>"a"\<close>, whose value is the number, the type \<^verbatim>\<open>float64\<close> and the whole
  path.
\<close>

theorem Path_numeric_leaf_error:
  "Path \<lparr>data = [''a'' \<mapsto> VFloat64 5]\<rparr> [''a'', ''b'']
     = Returns (VNil, Some (ExpectedMapOrString T_float64 ''a'' [''a'', ''b'']))"
  by (simp add: Path_eval)

text \<open>
  C2, as the specification states it, fails: the error does not name the segment
  \<^verbatim>\<open>"b"\<close>.
\<close>

theorem Path_numeric_leaf_counterexample:
  "Path \<lparr>data = [''a'' \<mapsto> VFloat64 5]\<rparr> [''a'', ''b'']
     \<noteq> Returns (VNil, Some (ExpectedMapOrString T_float64 ''b'' [''a'', ''b'']))"
  by (simp add: Path_eval)

text \<open>
  C3.  When the value resolved last was a list, the next segment is read as a zero-based
  integer index into that list, and not as a key: the mapping \<^verbatim>\<open>current\<close> has no part
  in the result, and for a segment that \<^verbatim>\<open>Atoi\<close> reads as \<open>i\<close>, within the list, the type
  switch is taken on the element at \<open>i\<close>.  On the document
  \<^verbatim>\<open>{"a": [{"tag":"x"},{"tag":"y"}]}\<close> the path \<^verbatim>\<open>["a","1","tag"]\<close> returns \<^verbatim>\<open>"y"\<close>
  and no error.
\<close>

theorem Path_list_segment_is_index:
  "Path_loop path current (Some l) (p # rest) = Path_loop path current' (Some l) (p # rest)
   \<and> (Atoi p = Some i \<longrightarrow> 0 \<le> i \<longrightarrow> i < int (length l) \<longrightarrow>
        Path_loop path current (Some l) (p # rest) =
          (case l ! nat i of
             VStr v \<Rightarrow> Returns (VStr v, None)
           | VMap v \<Rightarrow> Path_loop path v None rest
           | VList v \<Rightarrow> Path_loop path current (Some v) rest
           | other \<Rightarrow> Returns (VNil, Some (ExpectedMapOrString (typeOf other) p path))))
   \<and> Path \<lparr>data = [''a'' \<mapsto> VList [VMap [''tag'' \<mapsto> VStr ''x''],
                                       VMap [''tag'' \<mapsto> VStr ''y'']]]\<rparr>
        [''a'', ''1'', ''tag'']
        = Returns (VStr ''y'', None)"
proof (intro conjI impI)
  show "Path_loop path current (Some l) (p # rest) = Path_loop path current' (Some l) (p # rest)"
    by (rule Path_loop_pending_list)
next
  assume "Atoi p = Some i" "0 \<le> i" "i < int (length l)"
  then show "Path_loop path current (Some l) (p # rest) =
          (case l ! nat i of
             VStr v \<Rightarrow> Returns (VStr v, None)
           | VMap v \<Rightarrow> Path_loop path v None rest
           | VList v \<Rightarrow> Path_loop path current (Some v) rest
           | other \<Rightarrow> Returns (VNil, Some (ExpectedMapOrString (typeOf other) p path)))"
    by (cases "l ! nat i") (simp_all add: segment_value_def)
next
  show "Path \<lparr>data = [''a'' \<mapsto> VList [VMap [''tag'' \<mapsto> VStr ''x''],
                                       VMap [''tag'' \<mapsto> VStr ''y'']]]\<rparr>
        [''a'', ''1'', ''tag'']
        = Returns (VStr ''y'', None)"
    by (simp add: Path_eval)
qed

theorem Path_list_segment_is_index_witness:
  "Atoi ''1'' = Some 1 \<and> (0::int) \<le> 1
   \<and> (1::int) < int (length [VMap [''tag'' \<mapsto> VStr ''x''], VMap [''tag'' \<mapsto> VStr ''y'']])
   \<and> Path_loop [''a'', ''1'', ''tag''] Map.empty
        (Some [VMap [''tag'' \<mapsto> VStr ''x''], VMap [''tag'' \<mapsto> VStr ''y'']]) [''1'', ''tag'']
        = Returns (VStr ''y'', None)"
proof -
  have a: "Atoi ''1'' = Some 1"
    by (simp add: Path_eval)
  have b: "(1::int) < int (length [VMap [''tag'' \<mapsto> VStr ''x''], VMap [''tag'' \<mapsto> VStr ''y'']])"
    by simp
  have "Path_loop [''a'', ''1'', ''tag''] Map.empty
          (Some [VMap [''tag'' \<mapsto> VStr ''x''], VMap [''tag'' \<mapsto> VStr ''y'']]) [''1'', ''tag'']
        = Path_loop [''a'', ''1'', ''tag''] [''tag'' \<mapsto> VStr ''y''] None [''tag'']"
    using Path_list_segment_is_index [THEN conjunct2, THEN conjunct1, rule_format, OF a _ b,
        of "[''a'', ''1'', ''tag'']" Map.empty "[''tag'']"]
    by simp
  then show ?thesis
    using a by (simp add: segment_value_def index_map_def)
qed

text \<open>
  C4.  \<^verbatim>\<open>Path\<close> is total (it is a recursion over the segments), and it returns without
  an error in two ways only: with a string or with the empty result.  A segment whose
  value is a string returns that string at once, whatever segments remain, so that a
  string result stays when segments are added to the path; and once the segments are
  exhausted the result is empty with no error.
\<close>

theorem Path_returns_string_or_empty:
  "(Path g path = Returns (v, None) \<longrightarrow> v = VNil \<or> (\<exists>s. v = VStr s))
   \<and> (segment_value path current tmpList p = Inr (VStr s) \<longrightarrow>
        Path_loop path current tmpList (p # rest) = Returns (VStr s, None))
   \<and> (Path g path = Returns (VStr s, None) \<longrightarrow> Path g (path @ extra) = Returns (VStr s, None))
   \<and> Path_loop path current tmpList [] = Returns (VNil, None)"
proof (intro conjI impI)
  assume "Path g path = Returns (v, None)"
  then show "v = VNil \<or> (\<exists>s. v = VStr s)"
    unfolding Path_def by (rule Path_loop_no_error_result)
next
  assume "segment_value path current tmpList p = Inr (VStr s)"
  then show "Path_loop path current tmpList (p # rest) = Returns (VStr s, None)"
    by simp
next
  assume "Path g path = Returns (VStr s, None)"
  then show "Path g (path @ extra) = Returns (VStr s, None)"
    unfolding Path_def by (rule Path_loop_string_append)
next
  show "Path_loop path current tmpList [] = Returns (VNil, None)"
    by simp
qed

theorem Path_returns_string_or_empty_witness:
  "Path \<lparr>data = [''a'' \<mapsto> VStr ''s'']\<rparr> [''a''] = Returns (VStr ''s'', None)
   \<and> Path \<lparr>data = [''a'' \<mapsto> VStr ''s'']\<rparr> [''a'', ''b'', ''c''] = Returns (VStr ''s'', None)
   \<and> Path \<lparr>data = [''a'' \<mapsto> VMap Map.empty]\<rparr> [''a''] = Returns (VNil, None)"
proof -
  have a: "Path \<lparr>data = [''a'' \<mapsto> VStr ''s'']\<rparr> [''a''] = Returns (VStr ''s'', None)"
    by (simp add: Path_eval)
  have "Path \<lparr>data = [''a'' \<mapsto> VStr ''s'']\<rparr> ([''a''] @ [''b'', ''c'']) = Returns (VStr ''s'', None)"
    using Path_returns_string_or_empty [THEN conjunct2, THEN conjunct2, THEN conjunct1,
        rule_format, OF a] .
  moreover have "Path \<lparr>data = [''a'' \<mapsto> VMap Map.empty]\<rparr> [''a''] = Returns (VNil, None)"
    by (simp add: Path_eval)
  ultimately show ?thesis
    using a by simp
qed

text \<open>
  C10.  With a list pending, \<^verbatim>\<open>Path\<close> returns the error "list requires integer path"
  for the segment exactly when \<^verbatim>\<open>strconv.Atoi\<close> refuses it.  A segment that
  \<^verbatim>\<open>Atoi\<close> accepts indexes the list with no check of its sign or of the length: a
  negative index, or one not below the length, makes the indexing panic, and no error
  value is returned.  On \<^verbatim>\<open>{"a": ["x"]}\<close> the paths \<^verbatim>\<open>["a","1"]\<close> and
  \<^verbatim>\<open>["a","-1"]\<close> panic.
\<close>

theorem Path_list_index_unchecked:
  "(Path_loop path current (Some l) (p # rest)
       = Returns (VNil, Some (ListRequiresIntegerPath p path)) \<longleftrightarrow> Atoi p = None)
   \<and> (Atoi p = Some i \<longrightarrow> (i < 0 \<or> int (length l) \<le> i) \<longrightarrow>
        Path_loop path current (Some l) (p # rest) = Panics (IndexOutOfRange i (length l)))
   \<and> Path \<lparr>data = [''a'' \<mapsto> VList [VStr ''x'']]\<rparr> [''a'', ''1''] = Panics (IndexOutOfRange 1 1)
   \<and> Path \<lparr>data = [''a'' \<mapsto> VList [VStr ''x'']]\<rparr> [''a'', ''-1''] = Panics (IndexOutOfRange (- 1) 1)"
proof (intro conjI impI)
  show "Path_loop path current (Some l) (p # rest)
       = Returns (VNil, Some (ListRequiresIntegerPath p path)) \<longleftrightarrow> Atoi p = None"
  proof
    assume "Path_loop path current (Some l) (p # rest)
       = Returns (VNil, Some (ListRequiresIntegerPath p path))"
    then show "Atoi p = None" by (rule Path_loop_integer_error)
  next
    assume "Atoi p = None"
    then show "Path_loop path current (Some l) (p # rest)
       = Returns (VNil, Some (ListRequiresIntegerPath p path))"
      by (simp add: segment_value_def)
  qed
next
  assume "Atoi p = Some i" "i < 0 \<or> int (length l) \<le> i"
  then show "Path_loop path current (Some l) (p # rest) = Panics (IndexOutOfRange i (length l))"
    by (auto simp: segment_value_def)
next
  show "Path \<lparr>data = [''a'' \<mapsto> VList [VStr ''x'']]\<rparr> [''a'', ''1''] = Panics (IndexOutOfRange 1 1)"
    by (simp add: Path_eval)
next
  show "Path \<lparr>data = [''a'' \<mapsto> VList [VStr ''x'']]\<rparr> [''a'', ''-1''] = Panics (IndexOutOfRange (- 1) 1)"
    by (simp add: Path_eval)
qed

theorem Path_list_index_unchecked_witness:
  "Atoi ''7'' = Some 7 \<and> ((7::int) < 0 \<or> int (length [VStr ''x'', VStr ''y'']) \<le> 7)
   \<and> Path_loop [''7''] Map.empty (Some [VStr ''x'', VStr ''y'']) [''7'']
        = Panics (IndexOutOfRange 7 2)"
proof -
  have a: "Atoi ''7'' = Some 7"
    by (simp add: Path_eval)
  have b: "(7::int) < 0 \<or> int (length [VStr ''x'', VStr ''y'']) \<le> 7"
    by simp
  have "Path_loop [''7''] Map.empty (Some [VStr ''x'', VStr ''y'']) [''7'']
        = Panics (IndexOutOfRange 7 (length [VStr ''x'', VStr ''y'']))"
    using Path_list_index_unchecked [THEN conjunct2, THEN conjunct1, rule_format, OF a b] .
  then show ?thesis
    using a by simp
qed

section \<open>Properties of the hub and tag validation\<close>









section \<open>Properties of the image and dashboard checks\<close>

lemma find_append_first:
  "List.find P (xs @ ys) = (case List.find P xs of None \<Rightarrow> List.find P ys | Some x \<Rightarrow> Some x)"
  by (induction xs) simp_all

lemma docker_images_loop_find:
  "docker_images_loop found sfx imgs =
     map_option (\<lambda>img. ExpectedDockerImage img found)
       (List.find (\<lambda>img. img \<notin> found) (map (\<lambda>i. i @ sfx @ ''.tar.gz'') imgs))"
  by (induction imgs) (simp_all add: Let_def)

lemma docker_archs_loop_find:
  "docker_archs_loop found archs =
     map_option (\<lambda>img. ExpectedDockerImage img found)
       (List.find (\<lambda>img. img \<notin> found) (expected_tarballs archs))"
proof (induction archs)
  case Nil
  show ?case by (simp add: expected_tarballs_def)
next
  case (Cons plat archs)
  obtain before arch ok where cut: "Cut plat ''/'' = (before, arch, ok)"
    by (cases "Cut plat ''/''") auto
  then have sfx: "image_suffix plat = (if arch \<noteq> ''amd64'' then ''-'' @ arch else [])"
    by (simp add: image_suffix_def)
  have split: "expected_tarballs (plat # archs)
      = map (\<lambda>i. i @ image_suffix plat @ ''.tar.gz'') expected_images @ expected_tarballs archs"
    by (simp add: expected_tarballs_def)
  show ?case
    unfolding split find_append_first
    using Cons.IH cut
    by (simp add: docker_images_loop_find sfx [symmetric] Let_def split: option.splits)
qed

text \<open>
  C8.  \<^verbatim>\<open>TestDocker\<close> succeeds exactly when the docker directory of the release can
  be listed and, for every declared platform and every expected image, the tarball named
  by the image, the suffix of the platform (none for \<^verbatim>\<open>amd64\<close>, \<^verbatim>\<open>-arch\<close>
  otherwise) and \<^verbatim>\<open>.tar.gz\<close> is in the directory.  With the directory listed, it
  fails at the first expected tarball that is absent, naming it; a directory that cannot
  be listed is the failure "failed to read docker dir".
\<close>

theorem TestDocker_complete:
  "(TestDocker r w = Returns (None, w) \<longleftrightarrow>
      (\<exists>d. ReadDir w (Join w [release r, ''docker'']) = Inr d
         \<and> (\<forall>plat \<in> set (Architectures (manifest r)). \<forall>i \<in> set expected_images.
               i @ image_suffix plat @ ''.tar.gz'' \<in> set d)))
   \<and> (ReadDir w (Join w [release r, ''docker'']) = Inr d \<longrightarrow>
        TestDocker r w =
          Returns (map_option (\<lambda>img. ExpectedDockerImage img (set d))
                     (List.find (\<lambda>img. img \<notin> set d)
                        (expected_tarballs (Architectures (manifest r)))), w))
   \<and> (ReadDir w (Join w [release r, ''docker'']) = Inl err \<longrightarrow>
        TestDocker r w = Returns (Some (FailedToReadDockerDir err), w))"
proof (intro conjI impI)
  have res: "TestDocker r w =
          Returns (map_option (\<lambda>img. ExpectedDockerImage img (set d))
                     (List.find (\<lambda>img. img \<notin> set d)
                        (expected_tarballs (Architectures (manifest r)))), w)"
    if "ReadDir w (Join w [release r, ''docker'']) = Inr d" for d
    using that by (simp add: TestDocker_def docker_archs_loop_find)
  have listed: "TestDocker r w = Returns (None, w) \<longleftrightarrow>
         (\<forall>plat \<in> set (Architectures (manifest r)). \<forall>i \<in> set expected_images.
            i @ image_suffix plat @ ''.tar.gz'' \<in> set d)"
    if d: "ReadDir w (Join w [release r, ''docker'']) = Inr d" for d
  proof -
    have "TestDocker r w = Returns (None, w) \<longleftrightarrow>
        List.find (\<lambda>img. img \<notin> set d) (expected_tarballs (Architectures (manifest r))) = None"
      unfolding res [OF d] by simp
    also have "\<dots> \<longleftrightarrow> (\<forall>img \<in> set (expected_tarballs (Architectures (manifest r))). img \<in> set d)"
      by (auto simp: find_None_iff)
    also have "\<dots> \<longleftrightarrow> (\<forall>plat \<in> set (Architectures (manifest r)). \<forall>i \<in> set expected_images.
              i @ image_suffix plat @ ''.tar.gz'' \<in> set d)"
      by (auto simp: expected_tarballs_def)
    finally show ?thesis .
  qed
  show "TestDocker r w = Returns (None, w) \<longleftrightarrow>
      (\<exists>d. ReadDir w (Join w [release r, ''docker'']) = Inr d
         \<and> (\<forall>plat \<in> set (Architectures (manifest r)). \<forall>i \<in> set expected_images.
               i @ image_suffix plat @ ''.tar.gz'' \<in> set d))"
  proof (cases "ReadDir w (Join w [release r, ''docker''])")
    case (Inl e)
    then show ?thesis by (simp add: TestDocker_def)
  next
    case (Inr d')
    from listed [OF Inr] Inr show ?thesis by simp
  qed
  show "TestDocker r w =
          Returns (map_option (\<lambda>img. ExpectedDockerImage img (set d))
                     (List.find (\<lambda>img. img \<notin> set d)
                        (expected_tarballs (Architectures (manifest r)))), w)"
    if "ReadDir w (Join w [release r, ''docker'']) = Inr d"
    using that by (rule res)
  show "TestDocker r w = Returns (Some (FailedToReadDockerDir err), w)"
    if "ReadDir w (Join w [release r, ''docker'']) = Inl err"
    using that by (simp add: TestDocker_def)
qed

text \<open>
  For \<^verbatim>\<open>linux/amd64\<close> and \<^verbatim>\<open>linux/arm64\<close>: with the tarballs of both the check
  succeeds; with those of \<^verbatim>\<open>amd64\<close> only it fails at the first tarball of \<^verbatim>\<open>arm64\<close>.
\<close>

theorem TestDocker_complete_witness:
  "ReadDir (env_with_dir ''/out/docker'' (tarballs_amd64 @ tarballs_arm64))
       (Join (env_with_dir ''/out/docker'' (tarballs_amd64 @ tarballs_arm64))
          [release release_123, ''docker''])
     = Inr (tarballs_amd64 @ tarballs_arm64)
   \<and> TestDocker release_123 (env_with_dir ''/out/docker'' (tarballs_amd64 @ tarballs_arm64))
     = Returns (None, env_with_dir ''/out/docker'' (tarballs_amd64 @ tarballs_arm64))
   \<and> ReadDir (env_with_dir ''/out/docker'' tarballs_amd64)
       (Join (env_with_dir ''/out/docker'' tarballs_amd64) [release release_123, ''docker''])
     = Inr tarballs_amd64
   \<and> TestDocker release_123 (env_with_dir ''/out/docker'' tarballs_amd64)
     = Returns (Some (ExpectedDockerImage ''pilot-distroless-arm64.tar.gz'' (set tarballs_amd64)),
                env_with_dir ''/out/docker'' tarballs_amd64)"
proof -
  let ?both = "env_with_dir ''/out/docker'' (tarballs_amd64 @ tarballs_arm64)"
  let ?one = "env_with_dir ''/out/docker'' tarballs_amd64"
  have both: "ReadDir ?both (Join ?both [release release_123, ''docker''])
      = Inr (tarballs_amd64 @ tarballs_arm64)"
    by (simp add: env_with_dir_def bare_env_def release_123_def)
  have one: "ReadDir ?one (Join ?one [release release_123, ''docker'']) = Inr tarballs_amd64"
    by (simp add: env_with_dir_def bare_env_def release_123_def)
  have archs: "Architectures (manifest release_123) = [''linux/amd64'', ''linux/arm64'']"
    by (simp add: release_123_def)
  have sfx: "image_suffix ''linux/amd64'' = []" "image_suffix ''linux/arm64'' = ''-arm64''"
    by (simp_all add: image_suffix_def)
  have all: "\<forall>plat \<in> set (Architectures (manifest release_123)). \<forall>i \<in> set expected_images.
      i @ image_suffix plat @ ''.tar.gz'' \<in> set (tarballs_amd64 @ tarballs_arm64)"
    unfolding archs
    by (simp add: sfx expected_images_def tarballs_amd64_def tarballs_arm64_def)
  have ok: "TestDocker release_123 ?both = Returns (None, ?both)"
    using TestDocker_complete [THEN conjunct1, THEN iffD2, OF exI, OF conjI, OF both all] .
  have first: "List.find (\<lambda>img. img \<notin> set tarballs_amd64)
      (expected_tarballs (Architectures (manifest release_123)))
      = Some ''pilot-distroless-arm64.tar.gz''"
    unfolding archs
    by (simp add: expected_tarballs_def sfx expected_images_def tarballs_amd64_def)
  have bad: "TestDocker release_123 ?one
      = Returns (Some (ExpectedDockerImage ''pilot-distroless-arm64.tar.gz'' (set tarballs_amd64)), ?one)"
    using TestDocker_complete [THEN conjunct2, THEN conjunct1, rule_format, OF one] first by simp
  from both ok one bad show ?thesis by simp
qed

text \<open>
  C9.  \<^verbatim>\<open>TestGrafana\<close> succeeds exactly when the grafana directory of the release can
  be listed and the set of the file names in it, each without a trailing \<^verbatim>\<open>.json\<close>,
  is equal to the set of the dashboard names of the manifest.  With the directory listed,
  any difference, in either direction, is the failure "dashboards out of sync"; the
  error of a directory that cannot be listed is returned as it is.
\<close>

theorem TestGrafana_parity:
  "(TestGrafana r w = Returns (None, w) \<longleftrightarrow>
      (\<exists>dir. ReadDir w (Join w [release r, ''grafana'']) = Inr dir
         \<and> (\<lambda>db. TrimSuffix db ''.json'') ` set dir = dom (GrafanaDashboards (manifest r))))
   \<and> (ReadDir w (Join w [release r, ''grafana'']) = Inr dir \<longrightarrow>
        (\<lambda>db. TrimSuffix db ''.json'') ` set dir \<noteq> dom (GrafanaDashboards (manifest r)) \<longrightarrow>
        TestGrafana r w =
          Returns (Some (DashboardsOutOfSync ((\<lambda>db. TrimSuffix db ''.json'') ` set dir)
                           (dom (GrafanaDashboards (manifest r)))), w))
   \<and> (ReadDir w (Join w [release r, ''grafana'']) = Inl err \<longrightarrow>
        TestGrafana r w = Returns (Some err, w))"
proof (intro conjI impI)
  show "TestGrafana r w = Returns (None, w) \<longleftrightarrow>
      (\<exists>dir. ReadDir w (Join w [release r, ''grafana'']) = Inr dir
         \<and> (\<lambda>db. TrimSuffix db ''.json'') ` set dir = dom (GrafanaDashboards (manifest r)))"
    by (cases "ReadDir w (Join w [release r, ''grafana''])")
      (simp_all add: TestGrafana_def Let_def)
  show "TestGrafana r w =
          Returns (Some (DashboardsOutOfSync ((\<lambda>db. TrimSuffix db ''.json'') ` set dir)
                           (dom (GrafanaDashboards (manifest r)))), w)"
    if "ReadDir w (Join w [release r, ''grafana'']) = Inr dir"
      and "(\<lambda>db. TrimSuffix db ''.json'') ` set dir \<noteq> dom (GrafanaDashboards (manifest r))"
    using that by (simp add: TestGrafana_def Let_def)
  show "TestGrafana r w = Returns (Some err, w)"
    if "ReadDir w (Join w [release r, ''grafana'']) = Inl err"
    using that by (simp add: TestGrafana_def)
qed

text \<open>
  The files \<^verbatim>\<open>a.json\<close> and \<^verbatim>\<open>b.json\<close>: in sync with the dashboards \<^verbatim>\<open>a\<close>,
  \<^verbatim>\<open>b\<close>; out of sync with \<^verbatim>\<open>a\<close>, \<^verbatim>\<open>b\<close>, \<^verbatim>\<open>c\<close> and with \<^verbatim>\<open>a\<close> alone.
\<close>

theorem TestGrafana_parity_witness:
  "ReadDir (env_with_dir ''/out/grafana'' [''a.json'', ''b.json''])
       (Join (env_with_dir ''/out/grafana'' [''a.json'', ''b.json''])
          [release (release_dashboards [''a'' \<mapsto> 1, ''b'' \<mapsto> 2]), ''grafana''])
     = Inr [''a.json'', ''b.json'']
   \<and> TestGrafana (release_dashboards [''a'' \<mapsto> 1, ''b'' \<mapsto> 2])
        (env_with_dir ''/out/grafana'' [''a.json'', ''b.json''])
     = Returns (None, env_with_dir ''/out/grafana'' [''a.json'', ''b.json''])
   \<and> TestGrafana (release_dashboards [''a'' \<mapsto> 1, ''b'' \<mapsto> 2, ''c'' \<mapsto> 3])
        (env_with_dir ''/out/grafana'' [''a.json'', ''b.json''])
     = Returns (Some (DashboardsOutOfSync {''a'', ''b''}
                        (dom [''a'' \<mapsto> 1::int, ''b'' \<mapsto> 2, ''c'' \<mapsto> 3])),
                env_with_dir ''/out/grafana'' [''a.json'', ''b.json''])
   \<and> TestGrafana (release_dashboards [''a'' \<mapsto> 1])
        (env_with_dir ''/out/grafana'' [''a.json'', ''b.json''])
     = Returns (Some (DashboardsOutOfSync {''a'', ''b''} (dom [''a'' \<mapsto> 1::int])),
                env_with_dir ''/out/grafana'' [''a.json'', ''b.json''])"
proof -
  let ?w = "env_with_dir ''/out/grafana'' [''a.json'', ''b.json'']"
  have dir: "ReadDir ?w (Join ?w [release (release_dashboards ds), ''grafana''])
      = Inr [''a.json'', ''b.json'']" for ds
    by (simp add: env_with_dir_def bare_env_def release_dashboards_def release_123_def)
  have stems: "(\<lambda>db. TrimSuffix db ''.json'') ` set [''a.json'', ''b.json''] = {''a'', ''b''}"
    by (simp add: TrimSuffix_def HasSuffix_def)
  have m: "manifest (release_dashboards ds) = (manifest release_123)\<lparr>GrafanaDashboards := ds\<rparr>" for ds
    by (simp add: release_dashboards_def)
  have g: "GrafanaDashboards ((manifest release_123)\<lparr>GrafanaDashboards := ds\<rparr>) = ds" for ds
    by simp
  have eq: "{''a'', ''b''} = dom [''a'' \<mapsto> 1::int, ''b'' \<mapsto> 2]"
    by auto
  have ne3: "{''a'', ''b''} \<noteq> dom [''a'' \<mapsto> 1::int, ''b'' \<mapsto> 2, ''c'' \<mapsto> 3]"
  proof
    assume *: "{''a'', ''b''} = dom [''a'' \<mapsto> 1::int, ''b'' \<mapsto> 2, ''c'' \<mapsto> 3]"
    have "''c'' \<in> dom [''a'' \<mapsto> 1::int, ''b'' \<mapsto> 2, ''c'' \<mapsto> 3]" by simp
    with * have "''c'' \<in> {''a'', ''b''}" by (rule ssubst)
    then show False by simp
  qed
  have ne1: "{''a'', ''b''} \<noteq> dom [''a'' \<mapsto> 1::int]"
  proof
    assume *: "{''a'', ''b''} = dom [''a'' \<mapsto> 1::int]"
    have "''b'' \<in> {''a'', ''b''}" by simp
    with * have "''b'' \<in> dom [''a'' \<mapsto> 1::int]" by (rule subst)
    then show False by simp
  qed
  have ok: "TestGrafana (release_dashboards [''a'' \<mapsto> 1, ''b'' \<mapsto> 2]) ?w = Returns (None, ?w)"
    using TestGrafana_parity [THEN conjunct1, THEN iffD2, OF exI, OF conjI, OF dir,
        of "[''a'' \<mapsto> 1, ''b'' \<mapsto> 2]", unfolded stems m g, OF eq] .
  have more: "TestGrafana (release_dashboards [''a'' \<mapsto> 1, ''b'' \<mapsto> 2, ''c'' \<mapsto> 3]) ?w
      = Returns (Some (DashboardsOutOfSync {''a'', ''b''}
                         (dom [''a'' \<mapsto> 1::int, ''b'' \<mapsto> 2, ''c'' \<mapsto> 3])), ?w)"
    using TestGrafana_parity [THEN conjunct2, THEN conjunct1, rule_format, OF dir,
        of "[''a'' \<mapsto> 1, ''b'' \<mapsto> 2, ''c'' \<mapsto> 3]", unfolded stems m g, OF ne3] .
  have less: "TestGrafana (release_dashboards [''a'' \<mapsto> 1]) ?w
      = Returns (Some (DashboardsOutOfSync {''a'', ''b''} (dom [''a'' \<mapsto> 1::int])), ?w)"
    using TestGrafana_parity [THEN conjunct2, THEN conjunct1, rule_format, OF dir,
        of "[''a'' \<mapsto> 1]", unfolded stems m g, OF ne1] .
  show ?thesis
    by (intro conjI) (rule dir ok more less)+
qed

section \<open>Properties of the runner\<close>

lemma length_succeeded_failures:
  "length (succeeded outs) + length (failures outs) = length outs"
  by (induction outs) (auto simp: succeeded_def failures_def split: option.splits)

lemma length_failures:
  "length (failures outs) = length (filter (\<lambda>(name, res). res \<noteq> None) outs)"
  by (induction outs) (auto simp: failures_def split: option.splits)

lemma succeeded_Cons:
  "succeeded ((name, res) # outs) = (if res = None then name # succeeded outs else succeeded outs)"
  by (simp add: succeeded_def)

lemma failures_Cons:
  "failures ((name, res) # outs) =
     (case res of None \<Rightarrow> failures outs | Some err \<Rightarrow> CheckFailed name err # failures outs)"
  by (simp add: failures_def split: option.splits)

lemma check_outcomes_names:
  "check_outcomes r checks w = Returns (outs, w') \<Longrightarrow> map fst outs = map fst checks"
proof (induction checks arbitrary: w outs)
  case Nil
  then show ?case by simp
next
  case (Cons c checks)
  obtain name check where c: "c = (name, check)" by (cases c)
  from Cons.prems c obtain res w1 outs1 where
    1: "check r w = Returns (res, w1)" and
    2: "check_outcomes r checks w1 = Returns (outs1, w')" and
    3: "outs = (name, res) # outs1"
    by (auto split: exec.splits prod.splits)
  from Cons.IH [OF 2] 3 c show ?case by simp
qed

lemma CheckRelease_loop_outcomes:
  "check_outcomes r checks w = Returns (outs, w')
     \<Longrightarrow> CheckRelease_loop r checks w errors success
           = Returns (errors @ failures outs, success @ succeeded outs, w')"
proof (induction checks arbitrary: w outs errors success)
  case Nil
  then show ?case by (simp add: succeeded_def failures_def)
next
  case (Cons c checks)
  obtain name check where c: "c = (name, check)" by (cases c)
  from Cons.prems c obtain res w1 outs1 where
    1: "check r w = Returns (res, w1)" and
    2: "check_outcomes r checks w1 = Returns (outs1, w')" and
    3: "outs = (name, res) # outs1"
    by (auto split: exec.splits prod.splits)
  show ?case
  proof (cases res)
    case None
    with 1 3 c Cons.IH [OF 2, of errors "success @ [name]"] show ?thesis
      by (simp add: succeeded_Cons failures_Cons)
  next
    case (Some err)
    with 1 3 c Cons.IH [OF 2, of "errors @ [CheckFailed name err]" success] show ?thesis
      by (simp add: succeeded_Cons failures_Cons)
  qed
qed

lemma CheckRelease_loop_panics:
  "check_outcomes r checks w = Panics p
     \<Longrightarrow> CheckRelease_loop r checks w errors success = Panics p"
proof (induction checks arbitrary: w errors success)
  case Nil
  then show ?case by simp
next
  case (Cons c checks)
  obtain name check where c: "c = (name, check)" by (cases c)
  show ?case
  proof (cases "check r w")
    case (Panics q)
    with Cons.prems c show ?thesis by simp
  next
    case (Returns x)
    obtain res w1 where x: "x = (res, w1)" by (cases x)
    from Cons.prems c Returns x have "check_outcomes r checks w1 = Panics p"
      by (auto split: exec.splits prod.splits)
    from Cons.IH [OF this] Returns x c show ?thesis
      by (cases res) simp_all
  qed
qed

lemma report_nonempty:
  "CheckRelease_report r w errors \<noteq> [] \<longleftrightarrow> errors \<noteq> []"
  by (simp add: CheckRelease_report_def)

text \<open>
  C5.  For every release and every registry of \<open>N\<close> checks, run in any order: when no
  check panics, the runner runs all \<open>N\<close> of them, whatever fails, and returns the names
  of those that succeeded, \<open>N - K\<close> of them, the messages of the \<open>K\<close> that failed, each
  wrapped with the name of its check, and a report that is non-empty exactly when
  \<open>K > 0\<close>.  (A check that panics makes the runner panic.)
\<close>

theorem CheckRelease_run_aggregates:
  "(check_outcomes r checks w = Returns (outs, w') \<longrightarrow>
      CheckRelease_run r checks w
        = Returns (succeeded outs, CheckRelease_report r w' (failures outs), failures outs)
      \<and> map fst outs = map fst checks
      \<and> length (succeeded outs)
          = length checks - length (filter (\<lambda>(name, res). res \<noteq> None) outs)
      \<and> length (failures outs) = length (filter (\<lambda>(name, res). res \<noteq> None) outs)
      \<and> (CheckRelease_report r w' (failures outs) \<noteq> []
           \<longleftrightarrow> 0 < length (filter (\<lambda>(name, res). res \<noteq> None) outs)))
   \<and> (check_outcomes r checks w = Panics p \<longrightarrow> CheckRelease_run r checks w = Panics p)"
proof (intro conjI impI)
  assume o: "check_outcomes r checks w = Returns (outs, w')"
  show "CheckRelease_run r checks w
        = Returns (succeeded outs, CheckRelease_report r w' (failures outs), failures outs)"
    using CheckRelease_loop_outcomes [OF o, of "[]" "[]"] by (simp add: CheckRelease_run_def)
  show names: "map fst outs = map fst checks"
    using o by (rule check_outcomes_names)
  from names have len: "length outs = length checks"
    by (metis length_map)
  show "length (succeeded outs)
          = length checks - length (filter (\<lambda>(name, res). res \<noteq> None) outs)"
    using length_succeeded_failures [of outs] length_failures [of outs] len by simp
  show "length (failures outs) = length (filter (\<lambda>(name, res). res \<noteq> None) outs)"
    by (rule length_failures)
  show "CheckRelease_report r w' (failures outs) \<noteq> []
           \<longleftrightarrow> 0 < length (filter (\<lambda>(name, res). res \<noteq> None) outs)"
    unfolding report_nonempty length_failures [symmetric] by simp
next
  assume "check_outcomes r checks w = Panics p"
  then show "CheckRelease_run r checks w = Panics p"
    by (simp add: CheckRelease_run_def CheckRelease_loop_panics)
qed

text \<open>The fields of the example environment and release.\<close>

lemma env_with_dir_fields:
  "ReadDir (env_with_dir p names) = (\<lambda>q. if q = p then Inr names else Inl (External ''no such file or directory''))"
  "Join (env_with_dir p names) = join_slash"
  "IsValidSemver (env_with_dir p names) = (\<lambda>v. v = ''1.2.3'')"
  "command (env_with_dir p names) = (\<lambda>argv. Inl (External ''executable file not found''))"
  "executed (env_with_dir p names) = []"
  "FormatReleaseInfo (env_with_dir p names) = (\<lambda>r. ''{}'')"
  "Walk (env_with_dir p names) = (\<lambda>p. [])"
  by (simp_all add: env_with_dir_def bare_env_def)

lemma release_123_fields:
  "release release_123 = ''/out''"
  "Version (manifest release_123) = ''1.2.3''"
  "GrafanaDashboards (manifest release_123) = [''a'' \<mapsto> 1, ''b'' \<mapsto> 2]"
  by (simp_all add: release_123_def)

text \<open>
  Three checks of which two fail: the docker directory is missing and there is no
  \<^verbatim>\<open>helm\<close> to run; the dashboards are in sync.
\<close>

theorem CheckRelease_run_aggregates_witness:
  "check_outcomes release_123 example_checks (env_with_dir ''/out/grafana'' [''a.json'', ''b.json''])
     = Returns ([(''TestDocker'', Some (FailedToReadDockerDir (External ''no such file or directory''))),
                 (''Grafana'', None),
                 (''HelmChartVersions'', Some (HelmShow (External ''executable file not found'')))],
                (env_with_dir ''/out/grafana'' [''a.json'', ''b.json''])
                  \<lparr>executed := [[''helm'', ''show'', ''values'', ''/out/helm/cni-1.2.3.tgz'']]\<rparr>)
   \<and> CheckRelease_run release_123 example_checks (env_with_dir ''/out/grafana'' [''a.json'', ''b.json''])
     = Returns ([''Grafana''],
                ''Checks failed. Release info: {}Files in release: '' @ newline @ newline
                  @ ''Files in archive: '' @ newline,
                [CheckFailed ''TestDocker'' (FailedToReadDockerDir (External ''no such file or directory'')),
                 CheckFailed ''HelmChartVersions'' (HelmShow (External ''executable file not found''))])"
proof -
  let ?w = "env_with_dir ''/out/grafana'' [''a.json'', ''b.json'']"
  let ?w' = "?w\<lparr>executed := [[''helm'', ''show'', ''values'', ''/out/helm/cni-1.2.3.tgz'']]\<rparr>"
  have docker: "TestDocker release_123 ?w
      = Returns (Some (FailedToReadDockerDir (External ''no such file or directory'')), ?w)"
    by (simp add: TestDocker_def env_with_dir_fields release_123_fields)
  have eq: "{''a'', ''b''} = dom [''a'' \<mapsto> 1::int, ''b'' \<mapsto> 2]"
    by auto
  have grafana: "TestGrafana release_123 ?w = Returns (None, ?w)"
    using eq by (simp add: TestGrafana_def env_with_dir_fields release_123_fields TrimSuffix_def HasSuffix_def)
  have helm: "TestHelmChartVersions expected_charts release_123 ?w
      = Returns (Some (HelmShow (External ''executable file not found'')), ?w')"
    by (simp add: TestHelmChartVersions_def expected_charts_def Run_def env_with_dir_fields release_123_fields)
  have outs: "check_outcomes release_123 example_checks ?w
     = Returns ([(''TestDocker'', Some (FailedToReadDockerDir (External ''no such file or directory''))),
                 (''Grafana'', None),
                 (''HelmChartVersions'', Some (HelmShow (External ''executable file not found'')))], ?w')"
    by (simp add: example_checks_def docker grafana helm)
  have w': "release release_123 = ''/out''" "archive release_123 = ''/tmp/release-test1/istio-1.2.3''"
    "FormatReleaseInfo ?w' = (\<lambda>r. ''{}'')" "Walk ?w' = (\<lambda>p. [])"
    by (simp_all add: env_with_dir_fields release_123_def)
  from CheckRelease_run_aggregates [THEN conjunct1, rule_format, OF outs, THEN conjunct1]
  have "CheckRelease_run release_123 example_checks ?w
     = Returns ([''Grafana''],
                ''Checks failed. Release info: {}Files in release: '' @ newline @ newline
                  @ ''Files in archive: '' @ newline,
                [CheckFailed ''TestDocker'' (FailedToReadDockerDir (External ''no such file or directory'')),
                 CheckFailed ''HelmChartVersions'' (HelmShow (External ''executable file not found''))])"
    by (simp add: succeeded_def failures_def CheckRelease_report_def w')
  with outs show ?thesis by (rule conjI)
qed


section \<open>Properties of the chart version checks\<close>

lemma for_files_None:
  "for_files f files = Returns None \<longleftrightarrow> (\<forall>file \<in> set files. f file = Returns None)"
proof (induction files)
  case Nil
  show ?case by simp
next
  case (Cons x xs)
  show ?case
  proof (cases "f x")
    case (Panics p)
    then show ?thesis by simp
  next
    case (Returns res)
    with Cons show ?thesis by (cases res) simp_all
  qed
qed

lemma validateHubTag_semver:
  "validateHubTag r (w\<lparr>IsValidSemver := f\<rparr>) values paths = validateHubTag r w values paths"
  by (simp add: validateHubTag_def getValues_def)

lemma validateHubTagFromFile_semver:
  "validateHubTagFromFile r (w\<lparr>IsValidSemver := f\<rparr>) file paths = validateHubTagFromFile r w file paths"
  by (cases "ReadFile w (Join w [archive r, file])")
    (simp_all add: validateHubTagFromFile_def validateHubTag_semver)

text \<open>
  C6.  When the manifest version is no valid semantic version,
  \<^verbatim>\<open>TestHelmChartVersions\<close> returns success in the state it was called in: no command
  has been run, no chart inspected, nothing compared.  \<^verbatim>\<open>TestHelmVersionsIstio\<close> has
  no such gate: it succeeds exactly when the hub and tag validation of each of its five
  values files succeeds, its result does not depend on what is a semantic version, and
  with the version \<^verbatim>\<open>dev-build\<close> it fails on a tag that differs.
\<close>

theorem semver_gate:
  "(\<not> IsValidSemver w (Version (manifest r)) \<longrightarrow>
      TestHelmChartVersions charts r w = Returns (None, w))
   \<and> (TestHelmVersionsIstio r w = Returns (None, w) \<longleftrightarrow>
        (\<forall>file \<in> set manifestValues.
           validateHubTagFromFile r w file ''_internal_defaults_do_not_set.global'' = Returns None)
        \<and> (\<forall>file \<in> set topLevel.
             validateHubTagFromFile r w file ''_internal_defaults_do_not_set'' = Returns None))
   \<and> TestHelmVersionsIstio r (w\<lparr>IsValidSemver := f\<rparr>)
        = (case TestHelmVersionsIstio r w of
             Panics p \<Rightarrow> Panics p
           | Returns (res, w') \<Rightarrow> Returns (res, w'\<lparr>IsValidSemver := f\<rparr>))
   \<and> \<not> IsValidSemver dev_env (Version (manifest release_dev))
   \<and> TestHelmVersionsIstio release_dev dev_env
        = Returns (Some (ArchiveTagIncorrect (VStr ''1.2.3'') ''dev-build''), dev_env)"
proof (intro conjI impI)
  assume "\<not> IsValidSemver w (Version (manifest r))"
  then show "TestHelmChartVersions charts r w = Returns (None, w)"
    by (simp add: TestHelmChartVersions_def)
next
  let ?A = "for_files (\<lambda>file. validateHubTagFromFile r w file ''_internal_defaults_do_not_set.global'')
             manifestValues"
  let ?B = "for_files (\<lambda>file. validateHubTagFromFile r w file ''_internal_defaults_do_not_set'')
             topLevel"
  have "TestHelmVersionsIstio r w = Returns (None, w) \<longleftrightarrow> ?A = Returns None \<and> ?B = Returns None"
  proof (cases ?A)
    case (Panics p)
    then show ?thesis by (simp add: TestHelmVersionsIstio_def)
  next
    case (Returns a)
    show ?thesis
    proof (cases a)
      case (Some err)
      with Returns show ?thesis by (simp add: TestHelmVersionsIstio_def)
    next
      case None
      with Returns show ?thesis
        by (cases ?B) (simp_all add: TestHelmVersionsIstio_def)
    qed
  qed
  then show "TestHelmVersionsIstio r w = Returns (None, w) \<longleftrightarrow>
        (\<forall>file \<in> set manifestValues.
           validateHubTagFromFile r w file ''_internal_defaults_do_not_set.global'' = Returns None)
        \<and> (\<forall>file \<in> set topLevel.
             validateHubTagFromFile r w file ''_internal_defaults_do_not_set'' = Returns None)"
    by (simp only: for_files_None)
next
  let ?A = "for_files (\<lambda>file. validateHubTagFromFile r w file ''_internal_defaults_do_not_set.global'')
             manifestValues"
  let ?B = "for_files (\<lambda>file. validateHubTagFromFile r w file ''_internal_defaults_do_not_set'')
             topLevel"
  show "TestHelmVersionsIstio r (w\<lparr>IsValidSemver := f\<rparr>)
        = (case TestHelmVersionsIstio r w of
             Panics p \<Rightarrow> Panics p
           | Returns (res, w') \<Rightarrow> Returns (res, w'\<lparr>IsValidSemver := f\<rparr>))"
  proof (cases ?A)
    case (Panics p)
    then show ?thesis by (simp add: TestHelmVersionsIstio_def validateHubTagFromFile_semver)
  next
    case (Returns a)
    show ?thesis
    proof (cases a)
      case (Some err)
      with Returns show ?thesis by (simp add: TestHelmVersionsIstio_def validateHubTagFromFile_semver)
    next
      case None
      with Returns show ?thesis
        by (cases ?B) (simp_all add: TestHelmVersionsIstio_def validateHubTagFromFile_semver)
    qed
  qed
next
  show "\<not> IsValidSemver dev_env (Version (manifest release_dev))"
    by (simp add: dev_env_def bare_env_def release_dev_def)
next
  have first_file: "validateHubTagFromFile release_dev dev_env
      ''manifests/charts/gateways/istio-egress/values.yaml'' ''_internal_defaults_do_not_set.global''
      = Returns (Some (ArchiveTagIncorrect (VStr ''1.2.3'') ''dev-build''))"
    by (simp add: validateHubTagFromFile_def validateHubTag_def getValues_def dev_env_def
        bare_env_def release_dev_def Split_def Path_eval)
  show "TestHelmVersionsIstio release_dev dev_env
        = Returns (Some (ArchiveTagIncorrect (VStr ''1.2.3'') ''dev-build''), dev_env)"
    by (simp add: TestHelmVersionsIstio_def manifestValues_def first_file)
qed

theorem semver_gate_witness:
  "\<not> IsValidSemver dev_env (Version (manifest release_dev))
   \<and> TestHelmChartVersions expected_charts release_dev dev_env = Returns (None, dev_env)
   \<and> executed dev_env = []"
proof -
  have a: "\<not> IsValidSemver dev_env (Version (manifest release_dev))"
    by (simp add: dev_env_def bare_env_def release_dev_def)
  have b: "TestHelmChartVersions expected_charts release_dev dev_env = Returns (None, dev_env)"
    using semver_gate [THEN conjunct1, rule_format, OF a] .
  have c: "executed dev_env = []"
    by (simp add: dev_env_def bare_env_def)
  from a b c show ?thesis by simp
qed

end
